theory Spec2Isabelle
  imports Main
begin

section \<open>Data model (types.ts)\<close>

text \<open>
  The service-account credential. The queue logic only tests whether one is present.
\<close>

record ServiceAccountKey =
  type_k :: string
  project_id :: string
  private_key_id :: string
  private_key :: string
  client_email :: string
  client_id :: string
  auth_uri :: string
  token_uri :: string
  auth_provider_x509_cert_url :: string
  client_x509_cert_url :: string

datatype IndexingStatus = PENDING | ANALYZING | READY | SUBMITTING | SUCCESS | FAILED

datatype UrlQuality = HIGH | MEDIUM | LOW

datatype RequestType = URL_UPDATED | URL_DELETED

text \<open>
  \<open>UrlItem\<close>. The field \<open>id\<close> of the source is \<open>id'\<close> here (\<open>id\<close> is the identity
  function of HOL). Optional fields are options; \<open>qualityScore\<close> is a number that the
  program only copies, never computes with.
\<close>

record UrlItem =
  id' :: string
  url :: string
  status :: IndexingStatus
  qualityScore :: "int option"
  qualityLabel :: "UrlQuality option"
  analysis :: "string option"
  requestType :: RequestType

text \<open>One entry of \<open>AnalysisResponse.items\<close>, and the response itself.\<close>

record AnalysisEntry =
  url_r :: string
  qualityLabel_r :: UrlQuality
  qualityScore_r :: int
  reasoning :: string

record AnalysisResponse =
  items_r :: "AnalysisEntry list"

section \<open>The App component (state and handlers)\<close>

text \<open>
  The React state of \<open>App\<close>: the three \<open>useState\<close> cells that the handlers read and
  write (\<open>activeTab\<close> plays no part in them).
\<close>

record app_state =
  serviceAccount :: "ServiceAccountKey option"
  items :: "UrlItem list"
  isProcessing :: bool

text \<open>
  The three \<open>alert\<close> messages of the component: \<open>Upload_key_first\<close> is
  "Please upload a Service Account Key first.", \<open>Analysis_failed\<close> is "Failed to
  analyze URLs with Gemini. Check your API Key.", and \<open>Submission_complete n\<close> is
  "Submission complete! Processed n URLs.".

  What a handler does besides updating the state is recorded as a log of events, in the
  order in which they happen: an \<open>alert\<close>, the batched analysis request
  (\<open>await analyzeUrls(urls)\<close>), the simulated submission request for one item
  (\<open>await simulateDelay(800)\<close> followed by the draw \<open>Math.random() > 0.1\<close>), and each
  call of a state setter (\<open>setItems\<close>, \<open>setIsProcessing\<close>) with the state that it leaves.
  A setter called with an updater function applies it to the state current at that moment.
\<close>

datatype alert =
  Upload_key_first
  | Analysis_failed
  | Submission_complete nat

datatype event =
  Alert alert
  | Analyze_call "string list"
  | Submit_call UrlItem
  | Commit app_state

subsection \<open>Queue store: addUrls, deleteUrl, deleteBatch, clearFailedUrls\<close>

text \<open>
  \<open>Math.random().toString(36).substring(7)\<close>: the random source is an input of the
  model. \<open>rnd k\<close> is the text that \<open>Math.random().toString(36)\<close> yields at the \<open>k\<close>-th
  draw of the call (such as \<open>0.i\<close> for the draw 0.5, or \<open>0.4fzyo82mvyr\<close>), and
  \<open>substring 7\<close> drops its first seven characters.
\<close>

definition substring :: "nat \<Rightarrow> string \<Rightarrow> string" where
  "substring n s = drop n s"

definition newItem :: "string \<Rightarrow> string \<Rightarrow> UrlItem" where
  "newItem r u =
     \<lparr> id' = substring 7 r, url = u, status = PENDING, qualityScore = None,
       qualityLabel = None, analysis = None, requestType = URL_UPDATED \<rparr>"

definition addUrls :: "(nat \<Rightarrow> string) \<Rightarrow> string list \<Rightarrow> app_state \<Rightarrow> app_state" where
  "addUrls rnd urls st =
     (let newItems = map (\<lambda>(k, u). newItem (rnd k) u) (enumerate 0 urls)
      in st\<lparr> items := items st @ newItems \<rparr>)"

definition deleteUrl :: "string \<Rightarrow> app_state \<Rightarrow> app_state" where
  "deleteUrl i st = st\<lparr> items := filter (\<lambda>x. id' x \<noteq> i) (items st) \<rparr>"

definition deleteBatch :: "string list \<Rightarrow> app_state \<Rightarrow> app_state" where
  "deleteBatch ids st = st\<lparr> items := filter (\<lambda>x. id' x \<notin> set ids) (items st) \<rparr>"

definition clearFailedUrls :: "app_state \<Rightarrow> app_state" where
  "clearFailedUrls st = st\<lparr> items := filter (\<lambda>x. status x \<noteq> FAILED) (items st) \<rparr>"

subsection \<open>runGeminiAnalysis\<close>

text \<open>
  \<open>targetIds\<close> is optional: \<open>Some ids\<close> is the batch call, \<open>None\<close> the global one.
\<close>

definition analysisTargets :: "string list option \<Rightarrow> UrlItem list \<Rightarrow> UrlItem list" where
  "analysisTargets targetIds its =
     (case targetIds of
        Some ids \<Rightarrow> filter (\<lambda>i. id' i \<in> set ids) its
      | None \<Rightarrow> filter (\<lambda>i. status i = PENDING) its)"

text \<open>The three state updaters of the handler, each a function of the previous list.\<close>

definition markAnalyzing :: "string list \<Rightarrow> UrlItem list \<Rightarrow> UrlItem list" where
  "markAnalyzing processingIds prev =
     map (\<lambda>item. if id' item \<in> set processingIds
                  then item\<lparr> status := ANALYZING \<rparr> else item) prev"

definition applyAnalysis :: "string list \<Rightarrow> AnalysisResponse \<Rightarrow> UrlItem list \<Rightarrow> UrlItem list" where
  "applyAnalysis processingIds analysisResult prev =
     map (\<lambda>item.
            if id' item \<notin> set processingIds then item
            else (case find (\<lambda>r. url_r r = url item) (items_r analysisResult) of
                    Some result \<Rightarrow>
                      item\<lparr> status := READY,
                            qualityLabel := Some (qualityLabel_r result),
                            qualityScore := Some (qualityScore_r result),
                            analysis := Some (reasoning result) \<rparr>
                  | None \<Rightarrow> item)) prev"

definition revertAnalyzing :: "string list \<Rightarrow> UrlItem list \<Rightarrow> UrlItem list" where
  "revertAnalyzing processingIds prev =
     map (\<lambda>item. if id' item \<in> set processingIds \<and> status item = ANALYZING
                  then item\<lparr> status := PENDING \<rparr> else item) prev"

text \<open>
  The handler runs in two parts. \<open>analysis_begin\<close> is everything up to the \<open>await\<close>: it
  returns \<open>None\<close> when there is nothing to process (the early \<open>return\<close>), and otherwise
  the ids in process, the urls sent, the two setter calls and the state they leave.
  \<open>analysis_resume\<close> is the continuation, run on the state \<open>prev\<close> that is current when
  the request settles: \<open>Inr\<close> is the resolved response, \<open>Inl\<close> the error thrown by
  \<open>analyzeUrls\<close> (a missing API key, a failed request, an empty or unparsable response
  text). The \<open>finally\<close> block clears the flag on both paths.
\<close>

definition analysis_begin ::
  "string list option \<Rightarrow> app_state
     \<Rightarrow> (string list \<times> string list \<times> event list \<times> app_state) option" where
  "analysis_begin targetIds st =
     (let itemsToProcess = analysisTargets targetIds (items st)
      in if itemsToProcess = [] then None
         else let st1 = st\<lparr> isProcessing := True \<rparr>;
                  processingIds = map id' itemsToProcess;
                  st2 = st1\<lparr> items := markAnalyzing processingIds (items st1) \<rparr>
              in Some (processingIds, map url itemsToProcess, [Commit st1, Commit st2], st2))"

definition analysis_resume ::
  "string list \<Rightarrow> string + AnalysisResponse \<Rightarrow> app_state \<Rightarrow> event list \<times> app_state" where
  "analysis_resume processingIds outcome prev =
     (case outcome of
        Inr analysisResult \<Rightarrow>
          (let st1 = prev\<lparr> items := applyAnalysis processingIds analysisResult (items prev) \<rparr>;
               st2 = st1\<lparr> isProcessing := False \<rparr>
           in ([Commit st1, Commit st2], st2))
      | Inl err \<Rightarrow>
          (let st1 = prev\<lparr> items := revertAnalyzing processingIds (items prev) \<rparr>;
               st2 = st1\<lparr> isProcessing := False \<rparr>
           in ([Alert Analysis_failed, Commit st1, Commit st2], st2)))"

text \<open>
  The whole handler with nothing else running in between; \<open>analyzeUrls\<close> is the external
  call, a parameter of the model.
\<close>

definition runGeminiAnalysis ::
  "string list option \<Rightarrow> (string list \<Rightarrow> string + AnalysisResponse) \<Rightarrow> app_state
     \<Rightarrow> event list \<times> app_state" where
  "runGeminiAnalysis targetIds analyzeUrls st =
     (case analysis_begin targetIds st of
        None \<Rightarrow> ([], st)
      | Some (processingIds, urlsToAnalyze, evs1, st1) \<Rightarrow>
          (let (evs2, st2) = analysis_resume processingIds (analyzeUrls urlsToAnalyze) st1
           in (evs1 @ Analyze_call urlsToAnalyze # evs2, st2)))"

subsection \<open>submitToGoogle\<close>

definition submitTargets :: "string list option \<Rightarrow> UrlItem list \<Rightarrow> UrlItem list" where
  "submitTargets targetIds its =
     (case targetIds of
        Some ids \<Rightarrow> filter (\<lambda>i. id' i \<in> set ids) its
      | None \<Rightarrow> filter (\<lambda>i. status i = READY) its)"

definition markSubmitting :: "string list \<Rightarrow> UrlItem list \<Rightarrow> UrlItem list" where
  "markSubmitting processingIds prev =
     map (\<lambda>i. if id' i \<in> set processingIds then i\<lparr> status := SUBMITTING \<rparr> else i) prev"

definition submit_error :: string where
  "submit_error = ''API Error: Failed to connect to indexing.googleapis.com (Simulated)''"

text \<open>The updater inside the loop: it rewrites the entries whose id is that of \<open>item\<close>.\<close>

definition commitResult :: "UrlItem \<Rightarrow> bool \<Rightarrow> UrlItem list \<Rightarrow> UrlItem list" where
  "commitResult item isSuccess prev =
     map (\<lambda>i. if id' i = id' item
               then i\<lparr> status := (if isSuccess then SUCCESS else FAILED),
                       analysis := (if isSuccess then analysis i else Some submit_error) \<rparr>
               else i) prev"

text \<open>
  The synchronous part of the handler: the credential check, the choice of the items, the
  early \<open>return\<close> on an empty choice, and the two setter calls before the loop.
\<close>

definition submit_begin ::
  "string list option \<Rightarrow> app_state \<Rightarrow> event list \<times> (UrlItem list \<times> app_state) option" where
  "submit_begin targetIds st =
     (if serviceAccount st = None then ([Alert Upload_key_first], None)
      else let itemsToProcess = submitTargets targetIds (items st)
           in if itemsToProcess = [] then ([], None)
              else let st1 = st\<lparr> isProcessing := True \<rparr>;
                       processingIds = map id' itemsToProcess;
                       st2 = st1\<lparr> items := markSubmitting processingIds (items st1) \<rparr>
                   in ([Commit st1, Commit st2], Some (itemsToProcess, st2)))"

text \<open>
  The \<open>for ... of\<close> loop over \<open>itemsToProcess\<close>. Each round awaits the simulated request
  and then calls \<open>setItems\<close> once. \<open>rnd k\<close> is the value of \<open>Math.random() > 0.1\<close> in round
  \<open>k\<close>: the outcome of the request is an input of the model.
\<close>

fun submit_loop :: "(nat \<Rightarrow> bool) \<Rightarrow> nat \<Rightarrow> UrlItem list \<Rightarrow> app_state \<Rightarrow> event list \<times> app_state" where
  "submit_loop rnd k [] prev = ([], prev)"
| "submit_loop rnd k (item # rest) prev =
     (let isSuccess = rnd k;
          cur = prev\<lparr> items := commitResult item isSuccess (items prev) \<rparr>;
          (evs, fin) = submit_loop rnd (Suc k) rest cur
      in (Submit_call item # Commit cur # evs, fin))"

definition submitToGoogle ::
  "string list option \<Rightarrow> (nat \<Rightarrow> bool) \<Rightarrow> app_state \<Rightarrow> event list \<times> app_state" where
  "submitToGoogle targetIds rnd st =
     (case submit_begin targetIds st of
        (evs, None) \<Rightarrow> (evs, st)
      | (evs, Some (itemsToProcess, st1)) \<Rightarrow>
          (let (evs2, st2) = submit_loop rnd 0 itemsToProcess st1;
               st3 = st2\<lparr> isProcessing := False \<rparr>
           in (evs @ evs2 @ Commit st3 #
                 (if targetIds = None then [Alert (Submission_complete (length itemsToProcess))]
                  else []),
               st3)))"



section \<open>The UrlList component\<close>

subsection \<open>Strings\<close>

text \<open>
  A text is a \<open>string\<close>: a list of 8-bit characters, read as the code units U+0000 to
  U+00FF of a JavaScript string. On these, the white space of \<open>trim\<close> and of the regular
  expression class \<open>\s\<close> is TAB, LF, VT, FF, CR, SPACE and NBSP; the line terminators that
  \<open>.\<close> does not match are LF and CR; \<open>toLowerCase\<close> maps A to Z and the capital letters
  U+00C0 to U+00DE (but the multiplication sign U+00D7) to the letter 32 places further.
\<close>

definition isLineTerminator :: "char \<Rightarrow> bool" where
  "isLineTerminator c = (c = CHR 0x0A \<or> c = CHR 0x0D)"

definition isWhiteSpace :: "char \<Rightarrow> bool" where
  "isWhiteSpace c =
     (c \<in> set [CHR 0x09, CHR 0x0A, CHR 0x0B, CHR 0x0C, CHR 0x0D, CHR 0x20, CHR 0xA0])"

definition isQuote :: "char \<Rightarrow> bool" where
  "isQuote c = (c = CHR 0x22 \<or> c = CHR 0x27)"

definition trim :: "string \<Rightarrow> string" where
  "trim s = rev (dropWhile isWhiteSpace (rev (dropWhile isWhiteSpace s)))"

definition toLowerCase_char :: "char \<Rightarrow> char" where
  "toLowerCase_char c =
     (let n = (of_char c :: nat)
      in if (65 \<le> n \<and> n \<le> 90) \<or> (192 \<le> n \<and> n \<le> 222 \<and> n \<noteq> 215)
         then char_of (n + 32) else c)"

definition toLowerCase :: "string \<Rightarrow> string" where
  "toLowerCase s = map toLowerCase_char s"

definition startsWith :: "string \<Rightarrow> string \<Rightarrow> bool" where
  "startsWith p s = (take (length p) s = p)"

text \<open>\<open>s.includes(k)\<close>: \<open>k\<close> occurs in \<open>s\<close> at some position.\<close>

fun includes' :: "string \<Rightarrow> string \<Rightarrow> bool" where
  "includes' [] k = (k = [])"
| "includes' (c # cs) k = (startsWith k (c # cs) \<or> includes' cs k)"

text \<open>\<open>s.split(d)\<close> for a one-character separator: the empty text gives one empty piece.\<close>

fun split :: "char \<Rightarrow> string \<Rightarrow> string list" where
  "split d [] = [[]]"
| "split d (c # cs) =
     (if c = d then [] # split d cs
      else (case split d cs of w # ws \<Rightarrow> (c # w) # ws | [] \<Rightarrow> [[c]]))"

text \<open>
  A JavaScript \<open>Set\<close> keeps its members in insertion order: it is a list without
  repetition. \<open>new_Set xs\<close> is \<open>new Set(xs)\<close> (and \<open>[...new Set(xs)]\<close>, \<open>Array.from\<close>
  of it): each element is added in turn, and adding a member again changes nothing.
\<close>

definition Set_add :: "'a list \<Rightarrow> 'a \<Rightarrow> 'a list" where
  "Set_add acc x = (if x \<in> set acc then acc else acc @ [x])"

definition new_Set :: "'a list \<Rightarrow> 'a list" where
  "new_Set xs = foldl Set_add [] xs"

definition Set_delete :: "'a list \<Rightarrow> 'a \<Rightarrow> 'a list" where
  "Set_delete acc x = filter (\<lambda>y. y \<noteq> x) acc"

subsection \<open>The three patterns of handleScanExtract\<close>

text \<open>
  A pattern tried at the start of a text gives, when it matches, the text of its capture
  group (or of the whole match) and the length of the whole match.

  \<open>lazyDot close s\<close> is \<open>(.*?)\<close> followed by the literal \<open>close\<close>: the shortest run of
  characters other than line terminators after which \<open>close\<close> stands.
\<close>

fun lazyDot :: "string \<Rightarrow> string \<Rightarrow> string option" where
  "lazyDot close [] = (if close = [] then Some [] else None)"
| "lazyDot close (c # cs) =
     (if startsWith close (c # cs) then Some []
      else if isLineTerminator c then None
      else (case lazyDot close cs of Some cap \<Rightarrow> Some (c # cap) | None \<Rightarrow> None))"

text \<open>The pattern \<open><loc>(.*?)<\/loc>\<close>.\<close>

definition locAt :: "string \<Rightarrow> (string \<times> nat) option" where
  "locAt s =
     (if startsWith ''<loc>'' s
      then (case lazyDot ''</loc>'' (drop 5 s) of
              Some cap \<Rightarrow> Some (cap, 5 + length cap + 6)
            | None \<Rightarrow> None)
      else None)"

text \<open>\<open>https?:\/\/\<close>: the scheme matched at the start of the text, if any.\<close>

definition httpScheme :: "string \<Rightarrow> string option" where
  "httpScheme s =
     (if startsWith ''https://'' s then Some ''https://''
      else if startsWith ''http://'' s then Some ''http://''
      else None)"

text \<open>
  The pattern \<open>href=["'](https?:\/\/[^"']+)["']\<close>. The class \<open>[^"']+\<close> is greedy: it takes
  every character up to the next quote, must take at least one, and a quote must follow.
\<close>

definition hrefAt :: "string \<Rightarrow> (string \<times> nat) option" where
  "hrefAt s =
     (if startsWith ''href='' s then
        (case drop 5 s of
           [] \<Rightarrow> None
         | q # s1 \<Rightarrow>
             if isQuote q then
               (case httpScheme s1 of
                  None \<Rightarrow> None
                | Some scheme \<Rightarrow>
                    (let s2 = drop (length scheme) s1;
                         run = takeWhile (\<lambda>c. \<not> isQuote c) s2
                     in if run \<noteq> [] \<and> drop (length run) s2 \<noteq> []
                        then Some (scheme @ run, 5 + 1 + length scheme + length run + 1)
                        else None))
             else None)
      else None)"

text \<open>The pattern \<open>https?:\/\/[^\s<>"']+\<close>; the match itself is what is kept.\<close>

definition isLooseStop :: "char \<Rightarrow> bool" where
  "isLooseStop c = (isWhiteSpace c \<or> c = CHR ''<'' \<or> c = CHR ''>'' \<or> isQuote c)"

definition looseAt :: "string \<Rightarrow> (string \<times> nat) option" where
  "looseAt s =
     (case httpScheme s of
        None \<Rightarrow> None
      | Some scheme \<Rightarrow>
          (let run = takeWhile (\<lambda>c. \<not> isLooseStop c) (drop (length scheme) s)
           in if run \<noteq> [] then Some (scheme @ run, length scheme + length run)
              else None))"

text \<open>
  Matching with the \<open>g\<close> flag (\<open>matchAll\<close>, and \<open>match\<close> with a global pattern): the
  pattern is tried at each position from left to right, and after a match the search
  goes on where the match ended (one further when the match was empty).
\<close>

fun matchAll :: "(string \<Rightarrow> (string \<times> nat) option) \<Rightarrow> string \<Rightarrow> string list" where
  "matchAll at s =
     (if s = [] then []
      else (case at s of
              Some (cap, n) \<Rightarrow> cap # matchAll at (drop (max 1 n) s)
            | None \<Rightarrow> matchAll at (tl s)))"

declare matchAll.simps [simp del]

text \<open>\<open>String.prototype.match\<close> with a global pattern returns \<open>null\<close> when nothing matches.\<close>

definition match_g :: "(string \<Rightarrow> (string \<times> nat) option) \<Rightarrow> string \<Rightarrow> string list option" where
  "match_g at s = (let ms = matchAll at s in if ms = [] then None else Some ms)"

subsection \<open>handleScanExtract\<close>

text \<open>
  The list \<open>uniqueUrls\<close> that the handler passes to \<open>onAdd\<close>, as a function of the scanner
  text \<open>scanContent\<close> and of the filter text \<open>scanFilter\<close> (keywords separated by commas).
  It is computed in two parts: \<open>selectMatches\<close> is the value of \<open>extracted\<close> after the
  three strategies, and \<open>cleanUrls\<close> is the filter followed by "Clean and Dedup".
\<close>

definition selectMatches :: "string \<Rightarrow> string list" where
  "selectMatches scanContent =
     (let locs = matchAll locAt scanContent;
          extracted = (if length locs > 0 then locs else matchAll hrefAt scanContent)
      in if length extracted = 0
         then (case match_g looseAt scanContent of
                 Some looseMatches \<Rightarrow> looseMatches
               | None \<Rightarrow> extracted)
         else extracted)"

definition cleanUrls :: "string \<Rightarrow> string list \<Rightarrow> string list" where
  "cleanUrls scanFilter extracted =
     (let filtered = (if trim scanFilter \<noteq> []
                      then (let keywords = map (\<lambda>k. toLowerCase (trim k))
                                             (split CHR '','' scanFilter)
                            in filter (\<lambda>u. list_ex (\<lambda>k. includes' (toLowerCase u) k) keywords)
                                 extracted)
                      else extracted);
          uniqueUrls = filter (\<lambda>u. length u > 0) (map trim (new_Set filtered))
      in uniqueUrls)"

definition extractUrls :: "string \<Rightarrow> string \<Rightarrow> string list" where
  "extractUrls scanContent scanFilter = cleanUrls scanFilter (selectMatches scanContent)"

subsection \<open>Selection and the buttons\<close>

text \<open>
  The state of the page: the state of \<open>App\<close>, and of \<open>UrlList\<close> the set \<open>selectedIds\<close> and
  the two scanner fields that \<open>handleScanExtract\<close> reads. The other cells of \<open>UrlList\<close>
  (the paste box, the tab, the status line) do not bear on the queue or the selection.
\<close>

record ui_state =
  app :: app_state
  selectedIds :: "string list"
  scanContent :: string
  scanFilter :: string

definition handleScanExtract :: "(nat \<Rightarrow> string) \<Rightarrow> ui_state \<Rightarrow> ui_state" where
  "handleScanExtract rnd ui =
     (if trim (scanContent ui) = [] then ui
      else ui\<lparr> app := addUrls rnd (extractUrls (scanContent ui) (scanFilter ui)) (app ui),
               scanContent := [] \<rparr>)"

definition handleSelectAll :: "ui_state \<Rightarrow> ui_state" where
  "handleSelectAll ui =
     (if length (selectedIds ui) = length (items (app ui)) \<and> length (items (app ui)) > 0
      then ui\<lparr> selectedIds := [] \<rparr>
      else ui\<lparr> selectedIds := new_Set (map id' (items (app ui))) \<rparr>)"

definition handleSelect :: "string \<Rightarrow> ui_state \<Rightarrow> ui_state" where
  "handleSelect i ui =
     (if i \<in> set (selectedIds ui)
      then ui\<lparr> selectedIds := Set_delete (selectedIds ui) i \<rparr>
      else ui\<lparr> selectedIds := Set_add (selectedIds ui) i \<rparr>)"

text \<open>
  \<open>executeBatchAction\<close> calls the action with the selected ids and then clears the
  selection. The action is a handler of \<open>App\<close>; of an \<open>async\<close> handler, the part up to its
  first \<open>await\<close> runs inside the call.
\<close>

definition executeBatchAction ::
  "(string list \<Rightarrow> app_state \<Rightarrow> event list \<times> app_state) \<Rightarrow> ui_state \<Rightarrow> event list \<times> ui_state" where
  "executeBatchAction action ui =
     (let (evs, st) = action (selectedIds ui) (app ui)
      in (evs, ui\<lparr> app := st, selectedIds := [] \<rparr>))"

text \<open>
  What a call of each \<open>async\<close> handler does before it yields: the events up to and
  including the first request, and the state then. (For \<open>submitToGoogle\<close> the first
  \<open>await\<close> is the request of the first item.)
\<close>

definition analysis_start :: "string list option \<Rightarrow> app_state \<Rightarrow> event list \<times> app_state" where
  "analysis_start targetIds st =
     (case analysis_begin targetIds st of
        None \<Rightarrow> ([], st)
      | Some (processingIds, urlsToAnalyze, evs, st1) \<Rightarrow>
          (evs @ [Analyze_call urlsToAnalyze], st1))"

definition submit_start :: "string list option \<Rightarrow> app_state \<Rightarrow> event list \<times> app_state" where
  "submit_start targetIds st =
     (case submit_begin targetIds st of
        (evs, None) \<Rightarrow> (evs, st)
      | (evs, Some (itemsToProcess, st1)) \<Rightarrow>
          (evs @ map Submit_call (take 1 itemsToProcess), st1))"

text \<open>
  The buttons. A button that is not rendered, or is rendered \<open>disabled\<close>, cannot be
  clicked: the click is then the identity. The batch buttons are rendered when the
  selection is not empty; "Clear Failed" when the selection is empty and some item is
  FAILED; the delete button of a row for every item of the queue. The two global buttons
  of \<open>App\<close> carry a \<open>disabled\<close> attribute.
\<close>

definition click_batch_analyze :: "ui_state \<Rightarrow> event list \<times> ui_state" where
  "click_batch_analyze ui =
     (if length (selectedIds ui) > 0
      then executeBatchAction (\<lambda>ids. analysis_start (Some ids)) ui else ([], ui))"

definition click_batch_submit :: "ui_state \<Rightarrow> event list \<times> ui_state" where
  "click_batch_submit ui =
     (if length (selectedIds ui) > 0
      then executeBatchAction (\<lambda>ids. submit_start (Some ids)) ui else ([], ui))"

definition click_batch_delete :: "ui_state \<Rightarrow> event list \<times> ui_state" where
  "click_batch_delete ui =
     (if length (selectedIds ui) > 0
      then executeBatchAction (\<lambda>ids st. ([], deleteBatch ids st)) ui else ([], ui))"

definition click_clear_failed :: "ui_state \<Rightarrow> ui_state" where
  "click_clear_failed ui =
     (if \<not> length (selectedIds ui) > 0 \<and> list_ex (\<lambda>i. status i = FAILED) (items (app ui))
      then ui\<lparr> app := clearFailedUrls (app ui) \<rparr> else ui)"

definition click_row_delete :: "string \<Rightarrow> ui_state \<Rightarrow> ui_state" where
  "click_row_delete i ui =
     (if i \<in> set (map id' (items (app ui)))
      then ui\<lparr> app := deleteUrl i (app ui) \<rparr> else ui)"

definition click_analyze_all :: "ui_state \<Rightarrow> event list \<times> ui_state" where
  "click_analyze_all ui =
     (if isProcessing (app ui)
         \<or> length (filter (\<lambda>i. status i = PENDING) (items (app ui))) = 0
      then ([], ui)
      else (let (evs, st) = analysis_start None (app ui) in (evs, ui\<lparr> app := st \<rparr>)))"

definition click_submit_ready :: "ui_state \<Rightarrow> event list \<times> ui_state" where
  "click_submit_ready ui =
     (if isProcessing (app ui) \<or> serviceAccount (app ui) = None
         \<or> length (filter (\<lambda>i. status i = READY) (items (app ui))) = 0
      then ([], ui)
      else (let (evs, st) = submit_start None (app ui) in (evs, ui\<lparr> app := st \<rparr>)))"

section \<open>Example data\<close>

text \<open>Concrete queues, responses and texts on which the properties below are run.\<close>

definition ex_item :: "string \<Rightarrow> string \<Rightarrow> IndexingStatus \<Rightarrow> UrlItem" where
  "ex_item i u s =
     \<lparr> id' = i, url = u, status = s, qualityScore = None, qualityLabel = None,
       analysis = None, requestType = URL_UPDATED \<rparr>"

definition ex_queue :: app_state where
  "ex_queue = \<lparr> serviceAccount = None,
       items = [ex_item ''a'' ''u1'' PENDING, ex_item ''b'' ''u2'' PENDING,
                ex_item ''c'' ''u1'' READY],
       isProcessing = False \<rparr>"

definition ex_entry :: "string \<Rightarrow> UrlQuality \<Rightarrow> int \<Rightarrow> string \<Rightarrow> AnalysisEntry" where
  "ex_entry u q n r = \<lparr> url_r = u, qualityLabel_r = q, qualityScore_r = n, reasoning = r \<rparr>"

definition ex_response :: AnalysisResponse where
  "ex_response =
     \<lparr> items_r = [ex_entry ''u1'' HIGH 90 ''good'', ex_entry ''u1'' LOW 10 ''bad''] \<rparr>"

definition ex_ready :: app_state where
  "ex_ready = \<lparr> serviceAccount = None,
       items = [ex_item ''a'' ''u1'' READY, ex_item ''b'' ''u2'' READY,
                ex_item ''c'' ''u3'' READY],
       isProcessing = False \<rparr>"

definition ex_key :: ServiceAccountKey where
  "ex_key = \<lparr> type_k = ''service_account'', project_id = ''p'', private_key_id = ''k1'',
       private_key = ''pk'', client_email = ''e'', client_id = ''c'', auth_uri = ''a'',
       token_uri = ''t'', auth_provider_x509_cert_url = ''x'', client_x509_cert_url = ''y'' \<rparr>"


definition ex_sitemap :: string where
  "ex_sitemap = ''<loc>A</loc><loc>B</loc> <a href=\"http://c\">''"

definition ex_page :: string where
  "ex_page = ''href=\"http://x.com/a\" href=\"http://x.com/a\"''"

definition ex_prose :: string where
  "ex_prose = ''see http://x.com/blog/1 and http://x.com/shop/2''"

definition ex_empty :: app_state where
  "ex_empty = \<lparr> serviceAccount = None, items = [], isProcessing = False \<rparr>"

definition ex_ui :: "app_state \<Rightarrow> ui_state" where
  "ex_ui st = \<lparr> app = st, selectedIds = [], scanContent = [], scanFilter = [] \<rparr>"

definition ex_mixed :: app_state where
  "ex_mixed = \<lparr> serviceAccount = Some ex_key,
       items = [ex_item ''a'' ''u1'' PENDING, ex_item ''c'' ''u3'' READY],
       isProcessing = False \<rparr>"

definition ex_three :: ui_state where
  "ex_three = ex_ui (addUrls (\<lambda>k. [''0.aaaaaid0'', ''0.bbbbbid1'', ''0.cccccid2''] ! k)
                       [''u1'', ''u2'', ''u3''] ex_empty)"

section \<open>Properties of the analysis and submission handlers\<close>

lemma run_analysis_items:
  "items (snd (runGeminiAnalysis targetIds analyzeUrls st)) =
     (let tg = analysisTargets targetIds (items st); pids = map id' tg
      in if tg = [] then items st
         else case analyzeUrls (map url tg) of
                Inl err \<Rightarrow> revertAnalyzing pids (markAnalyzing pids (items st))
              | Inr resp \<Rightarrow> applyAnalysis pids resp (markAnalyzing pids (items st)))"
  by (simp add: runGeminiAnalysis_def analysis_begin_def analysis_resume_def Let_def
      split: sum.splits)


lemma apply_mark_nth:
  "n < length its \<Longrightarrow>
   applyAnalysis pids resp (markAnalyzing pids its) ! n =
     (if id' (its ! n) \<in> set pids
      then (case find (\<lambda>r. url_r r = url (its ! n)) (items_r resp) of
              Some r \<Rightarrow> (its ! n)\<lparr> status := READY,
                    qualityLabel := Some (qualityLabel_r r),
                    qualityScore := Some (qualityScore_r r),
                    analysis := Some (reasoning r) \<rparr>
            | None \<Rightarrow> (its ! n)\<lparr> status := ANALYZING \<rparr>)
      else its ! n)"
  by (simp add: applyAnalysis_def markAnalyzing_def split: option.splits)

lemma find_first:
  "xs = pre @ r # post \<Longrightarrow> \<forall>q \<in> set pre. \<not> P q \<Longrightarrow> P r \<Longrightarrow> find P xs = Some r"
  by (induction pre arbitrary: xs) auto

lemma find_none: "\<forall>q \<in> set xs. \<not> P q \<Longrightarrow> find P xs = None"
  by (simp add: find_None_iff)

lemma run_analysis_ok_nth:
  assumes ok: "analyzeUrls (map url (analysisTargets targetIds (items st))) = Inr resp"
    and run: "runGeminiAnalysis targetIds analyzeUrls st = (evs, fin)"
    and ids: "ids = id' ` set (analysisTargets targetIds (items st))"
    and n: "n < length (items st)"
  shows "items fin ! n =
      (if id' (items st ! n) \<in> ids
       then (case find (\<lambda>r. url_r r = url (items st ! n)) (items_r resp) of
              Some r \<Rightarrow> (items st ! n)\<lparr> status := READY,
                    qualityLabel := Some (qualityLabel_r r),
                    qualityScore := Some (qualityScore_r r),
                    analysis := Some (reasoning r) \<rparr>
            | None \<Rightarrow> (items st ! n)\<lparr> status := ANALYZING \<rparr>)
       else items st ! n)"
proof -
  let ?tg = "analysisTargets targetIds (items st)"
  have fin: "items fin =
      (if ?tg = [] then items st
       else applyAnalysis (map id' ?tg) resp (markAnalyzing (map id' ?tg) (items st)))"
    using run_analysis_items [of targetIds analyzeUrls st] ok run by (simp add: Let_def)
  show ?thesis
    using n by (cases "?tg = []") (simp_all add: fin ids apply_mark_nth)
qed



text \<open>
  Claim C4. When the analysis request succeeds with the response \<open>resp\<close>, a targeted item
  whose url equals the url of no entry of the response is left in ANALYZING with all its
  other fields unchanged, and a targeted item whose url has a matching entry becomes READY
  with label, score and note taken from that entry (the first one with that url, which is
  what \<open>find\<close> returns). The last conjunct is the updater on whatever state \<open>prev\<close> is
  current when the response arrives: an entry without a matching url is returned as it is.
\<close>

theorem analysis_success_correlates:
  assumes ok: "analyzeUrls (map url (analysisTargets targetIds (items st))) = Inr resp"
    and run: "runGeminiAnalysis targetIds analyzeUrls st = (evs, fin)"
    and ids: "ids = id' ` set (analysisTargets targetIds (items st))"
    and n: "n < length (items st)"
    and tgt: "id' (items st ! n) \<in> ids"
    and m: "m < length (items prev)"
  shows "((\<forall>r \<in> set (items_r resp). url_r r \<noteq> url (items st ! n)) \<longrightarrow>
            items fin ! n = (items st ! n)\<lparr> status := ANALYZING \<rparr>)
       \<and> (items_r resp = pre @ r # post \<longrightarrow>
            (\<forall>q \<in> set pre. url_r q \<noteq> url (items st ! n)) \<longrightarrow>
            url_r r = url (items st ! n) \<longrightarrow>
            items fin ! n = (items st ! n)\<lparr> status := READY,
                qualityLabel := Some (qualityLabel_r r),
                qualityScore := Some (qualityScore_r r),
                analysis := Some (reasoning r) \<rparr>)
       \<and> ((\<forall>r \<in> set (items_r resp). url_r r \<noteq> url (items prev ! m)) \<longrightarrow>
            items (snd (analysis_resume pids (Inr resp) prev)) ! m = items prev ! m)"
proof -
  note nth = run_analysis_ok_nth [OF ok run ids n]
  have none: "items fin ! n = (items st ! n)\<lparr> status := ANALYZING \<rparr>"
    if "\<forall>r \<in> set (items_r resp). url_r r \<noteq> url (items st ! n)"
    using that tgt find_none [of "items_r resp" "\<lambda>r. url_r r = url (items st ! n)"]
    by (simp add: nth)
  have some: "items fin ! n = (items st ! n)\<lparr> status := READY,
                    qualityLabel := Some (qualityLabel_r r),
                    qualityScore := Some (qualityScore_r r),
                    analysis := Some (reasoning r) \<rparr>"
    if "items_r resp = pre @ r # post" "\<forall>q \<in> set pre. url_r q \<noteq> url (items st ! n)"
      "url_r r = url (items st ! n)"
    using that tgt find_first [of "items_r resp" pre r post "\<lambda>r. url_r r = url (items st ! n)"]
    by (simp add: nth)
  have gen: "items (snd (analysis_resume pids (Inr resp) prev)) ! m = items prev ! m"
    if "\<forall>r \<in> set (items_r resp). url_r r \<noteq> url (items prev ! m)"
    using that m find_none [of "items_r resp" "\<lambda>r. url_r r = url (items prev ! m)"]
    by (simp add: analysis_resume_def applyAnalysis_def Let_def)
  show ?thesis
    using none some gen by simp
qed

theorem analysis_success_correlates_witness:
  "items (snd (runGeminiAnalysis None (\<lambda>us. Inr ex_response) ex_queue)) ! 0 =
     (ex_item ''a'' ''u1'' READY)\<lparr> qualityLabel := Some HIGH, qualityScore := Some 90,
        analysis := Some ''good'' \<rparr>
   \<and> items (snd (runGeminiAnalysis None (\<lambda>us. Inr ex_response) ex_queue)) ! 1 =
     ex_item ''b'' ''u2'' ANALYZING
   \<and> items (snd (analysis_resume [''b''] (Inr ex_response)
                  (ex_queue\<lparr> items := [ex_item ''b'' ''u2'' ANALYZING] \<rparr>))) ! 0 =
     ex_item ''b'' ''u2'' ANALYZING"
proof -
  let ?run = "runGeminiAnalysis None (\<lambda>us. Inr ex_response) ex_queue"
  let ?prev = "ex_queue\<lparr> items := [ex_item ''b'' ''u2'' ANALYZING] \<rparr>"
  have h1: "(\<lambda>us. Inr ex_response) (map url (analysisTargets None (items ex_queue))) =
      Inr ex_response"
    by simp
  have h2: "?run = (fst ?run, snd ?run)" by simp
  have h3: "{''a'', ''b''} = id' ` set (analysisTargets None (items ex_queue))"
    by (simp add: analysisTargets_def ex_queue_def ex_item_def)
  have a: "0 < length (items ex_queue)" "id' (items ex_queue ! 0) \<in> {''a'', ''b''}"
    by (simp_all add: ex_queue_def ex_item_def)
  have b: "1 < length (items ex_queue)" "id' (items ex_queue ! 1) \<in> {''a'', ''b''}"
    by (simp_all add: ex_queue_def ex_item_def)
  have h6: "0 < length (items ?prev)" by simp
  have e: "items ex_queue ! 0 = ex_item ''a'' ''u1'' PENDING"
    "items ex_queue ! Suc 0 = ex_item ''b'' ''u2'' PENDING"
    "(ex_item ''a'' ''u1'' PENDING)\<lparr> status := READY \<rparr> = ex_item ''a'' ''u1'' READY"
    "(ex_item ''b'' ''u2'' PENDING)\<lparr> status := ANALYZING \<rparr> = ex_item ''b'' ''u2'' ANALYZING"
    "url (ex_item ''a'' ''u1'' PENDING) = ''u1''"
    "url (ex_item ''b'' ''u2'' PENDING) = ''u2''"
    "url (ex_item ''b'' ''u2'' ANALYZING) = ''u2''"
    "items_r ex_response = [ex_entry ''u1'' HIGH 90 ''good'', ex_entry ''u1'' LOW 10 ''bad'']"
    "url_r (ex_entry ''u1'' HIGH 90 ''good'') = ''u1''"
    "url_r (ex_entry ''u1'' LOW 10 ''bad'') = ''u1''"
    "qualityLabel_r (ex_entry ''u1'' HIGH 90 ''good'') = HIGH"
    "qualityScore_r (ex_entry ''u1'' HIGH 90 ''good'') = 90"
    "reasoning (ex_entry ''u1'' HIGH 90 ''good'') = ''good''"
    by (simp_all add: ex_queue_def ex_item_def ex_response_def ex_entry_def)
  from analysis_success_correlates [OF h1 h2 h3 a h6, of "[]" "ex_entry ''u1'' HIGH 90 ''good''"
      "[ex_entry ''u1'' LOW 10 ''bad'']" "[''b'']"]
    analysis_success_correlates [OF h1 h2 h3 b h6, of "[]" "ex_entry ''u1'' HIGH 90 ''good''"
      "[ex_entry ''u1'' LOW 10 ''bad'']" "[''b'']"]
  show ?thesis by (simp add: e)
qed

text \<open>
  Claim C10. The queue does not deduplicate urls. When two targeted items carry the same
  url \<open>u\<close> and the successful response has an entry for \<open>u\<close>, with \<open>r\<close> the first such
  entry, both items become READY and both receive the score, label and note of \<open>r\<close>.
\<close>

theorem duplicate_urls_same_result:
  assumes ok: "analyzeUrls (map url (analysisTargets targetIds (items st))) = Inr resp"
    and run: "runGeminiAnalysis targetIds analyzeUrls st = (evs, fin)"
    and ids: "ids = id' ` set (analysisTargets targetIds (items st))"
    and m: "m < length (items st)" "id' (items st ! m) \<in> ids" "url (items st ! m) = u"
    and n: "n < length (items st)" "id' (items st ! n) \<in> ids" "url (items st ! n) = u"
    and first: "items_r resp = pre @ r # post" "\<forall>q \<in> set pre. url_r q \<noteq> u" "url_r r = u"
  shows "status (items fin ! m) = READY \<and> status (items fin ! n) = READY
       \<and> qualityScore (items fin ! m) = Some (qualityScore_r r)
       \<and> qualityScore (items fin ! n) = Some (qualityScore_r r)
       \<and> qualityLabel (items fin ! m) = Some (qualityLabel_r r)
       \<and> qualityLabel (items fin ! n) = Some (qualityLabel_r r)
       \<and> analysis (items fin ! m) = Some (reasoning r)
       \<and> analysis (items fin ! n) = Some (reasoning r)"
proof -
  have f: "find (\<lambda>r. url_r r = u) (items_r resp) = Some r"
    using first by (rule find_first)
  show ?thesis
    using m n f
    by (simp add: run_analysis_ok_nth [OF ok run ids m(1)]
        run_analysis_ok_nth [OF ok run ids n(1)])
qed

theorem duplicate_urls_same_result_witness:
  "status (items (snd (runGeminiAnalysis (Some [''a'', ''c'']) (\<lambda>us. Inr ex_response)
                        ex_queue)) ! 0) = READY
   \<and> status (items (snd (runGeminiAnalysis (Some [''a'', ''c'']) (\<lambda>us. Inr ex_response)
                        ex_queue)) ! 2) = READY
   \<and> qualityScore (items (snd (runGeminiAnalysis (Some [''a'', ''c''])
                        (\<lambda>us. Inr ex_response) ex_queue)) ! 0) = Some 90
   \<and> qualityScore (items (snd (runGeminiAnalysis (Some [''a'', ''c''])
                        (\<lambda>us. Inr ex_response) ex_queue)) ! 2) = Some 90"
proof -
  let ?run = "runGeminiAnalysis (Some [''a'', ''c'']) (\<lambda>us. Inr ex_response) ex_queue"
  let ?tg = "analysisTargets (Some [''a'', ''c'']) (items ex_queue)"
  have h1: "(\<lambda>us. Inr ex_response) (map url ?tg) = Inr ex_response"
    by simp
  have h2: "?run = (fst ?run, snd ?run)" by simp
  have h3: "{''a'', ''c''} = id' ` set ?tg"
    by (simp add: analysisTargets_def ex_queue_def ex_item_def)
  have m: "0 < length (items ex_queue)" "id' (items ex_queue ! 0) \<in> {''a'', ''c''}"
    "url (items ex_queue ! 0) = ''u1''"
    by (simp_all add: ex_queue_def ex_item_def)
  have n: "2 < length (items ex_queue)" "id' (items ex_queue ! 2) \<in> {''a'', ''c''}"
    "url (items ex_queue ! 2) = ''u1''"
    by (simp_all add: ex_queue_def ex_item_def)
  have f: "items_r ex_response =
      [] @ ex_entry ''u1'' HIGH 90 ''good'' # [ex_entry ''u1'' LOW 10 ''bad'']"
    "\<forall>q \<in> set []. url_r q \<noteq> ''u1''" "url_r (ex_entry ''u1'' HIGH 90 ''good'') = ''u1''"
    by (simp_all add: ex_response_def ex_entry_def)
  from duplicate_urls_same_result [OF h1 h2 h3 m n f]
  show ?thesis by (simp add: ex_entry_def)
qed

text \<open>
  Claim C3. A \<open>submit\<close> call made while no credential is configured stops at once: its only
  effect is the alert "Please upload a Service Account Key first." (the CONFIG_MISSING
  error of the specification). The state it returns is the state it was given, so every
  queued item keeps its status; the log holds no \<open>Submit_call\<close> and no \<open>Commit\<close>, and the
  synchronous part hands over no continuation.
\<close>

theorem submit_without_credential:
  assumes "serviceAccount st = None"
  shows "submitToGoogle targetIds rnd st = ([Alert Upload_key_first], st)
       \<and> submit_begin targetIds st = ([Alert Upload_key_first], None)"
  using assms by (simp add: submitToGoogle_def submit_begin_def)

theorem submit_without_credential_witness:
  "submitToGoogle None (\<lambda>k. True) ex_ready = ([Alert Upload_key_first], ex_ready)
   \<and> map status (items ex_ready) = [READY, READY, READY]"
proof -
  have h: "serviceAccount ex_ready = None" by (simp add: ex_ready_def)
  from submit_without_credential [OF h, of None "\<lambda>k. True"]
  show ?thesis by (simp add: ex_ready_def ex_item_def)
qed

subsection \<open>The submission loop\<close>


















section \<open>Properties of the extractor\<close>

text \<open>
  Claim C7. The three strategies are tried in strict priority and their results are never
  merged. When the \<open><loc>\<close> pattern has at least one match, the urls returned are built
  from those matches alone, whatever \<open>href\<close> attributes and loose urls the text holds; the
  \<open>href\<close> matches are used only when \<open><loc>\<close> has none, and the loose matches only when
  neither of the two has any.
\<close>

theorem extractor_tiers_exclusive:
  "(matchAll locAt t \<noteq> [] \<longrightarrow> extractUrls t f = cleanUrls f (matchAll locAt t))
   \<and> (matchAll locAt t = [] \<longrightarrow> matchAll hrefAt t \<noteq> [] \<longrightarrow>
        extractUrls t f = cleanUrls f (matchAll hrefAt t))
   \<and> (matchAll locAt t = [] \<longrightarrow> matchAll hrefAt t = [] \<longrightarrow>
        extractUrls t f = cleanUrls f (matchAll looseAt t))"
  by (simp add: extractUrls_def selectMatches_def match_g_def Let_def)

theorem extractor_tiers_exclusive_witness:
  "matchAll hrefAt ex_sitemap = [''http://c'']
   \<and> extractUrls ex_sitemap '''' = [''A'', ''B'']
   \<and> extractUrls ex_page '''' = [''http://x.com/a'']
   \<and> extractUrls ex_prose ''blog'' = [''http://x.com/blog/1'']"
proof -
  have l1: "matchAll locAt ex_sitemap = [''A'', ''B'']" by code_simp
  have h1: "matchAll hrefAt ex_sitemap = [''http://c'']" by code_simp
  have c1: "cleanUrls '''' [''A'', ''B''] = [''A'', ''B'']" by code_simp
  have l2: "matchAll locAt ex_page = []" by code_simp
  have h2: "matchAll hrefAt ex_page = [''http://x.com/a'', ''http://x.com/a'']" by code_simp
  have c2: "cleanUrls '''' [''http://x.com/a'', ''http://x.com/a''] = [''http://x.com/a'']"
    by code_simp
  have l3: "matchAll locAt ex_prose = []" by code_simp
  have h3: "matchAll hrefAt ex_prose = []" by code_simp
  have m3: "matchAll looseAt ex_prose = [''http://x.com/blog/1'', ''http://x.com/shop/2'']"
    by code_simp
  have c3: "cleanUrls ''blog'' [''http://x.com/blog/1'', ''http://x.com/shop/2'']
      = [''http://x.com/blog/1'']"
    by code_simp
  from extractor_tiers_exclusive [of ex_sitemap "''''"]
    extractor_tiers_exclusive [of ex_page "''''"]
    extractor_tiers_exclusive [of ex_prose "''blog''"]
  show ?thesis
    by (simp add: l1 h1 c1 l2 h2 c2 l3 h3 m3 c3)
qed

lemma dropWhile_last: "dropWhile P xs \<noteq> [] \<Longrightarrow> last (dropWhile P xs) = last xs"
  by (induction xs) (auto split: if_splits)

lemma trim_ends:
  assumes "trim s \<noteq> []"
  shows "\<not> isWhiteSpace (hd (trim s)) \<and> \<not> isWhiteSpace (last (trim s))"
proof -
  let ?a = "dropWhile isWhiteSpace s"
  let ?b = "dropWhile isWhiteSpace (rev ?a)"
  have b: "?b \<noteq> []" using assms by (simp add: trim_def)
  have a: "?a \<noteq> []"
    using b by (metis dropWhile.simps(1) rev.simps(1))
  have "\<not> isWhiteSpace (hd ?b)" using b by (rule hd_dropWhile)
  then have l: "\<not> isWhiteSpace (last (trim s))"
    using b by (simp add: trim_def last_rev)
  have "last ?b = last (rev ?a)" using b by (rule dropWhile_last)
  also have "\<dots> = hd ?a" using a by (simp add: last_rev)
  finally have "hd (trim s) = hd ?a" using b by (simp add: trim_def hd_rev)
  moreover have "\<not> isWhiteSpace (hd ?a)" using a by (rule hd_dropWhile)
  ultimately show ?thesis using l by simp
qed

lemma extract_trimmed_nonempty:
  "u \<in> set (extractUrls t f) \<Longrightarrow>
     u \<noteq> [] \<and> \<not> isWhiteSpace (hd u) \<and> \<not> isWhiteSpace (last u)"
  by (auto simp: extractUrls_def cleanUrls_def Let_def trim_ends)

lemma Set_add_distinct: "distinct acc \<Longrightarrow> distinct (foldl Set_add acc xs)"
  by (induction xs arbitrary: acc) (simp_all add: Set_add_def)

lemma new_Set_distinct: "distinct (new_Set xs)"
  by (simp add: new_Set_def Set_add_distinct)

lemma extract_no_match:
  "matchAll locAt t = [] \<Longrightarrow> matchAll hrefAt t = [] \<Longrightarrow> matchAll looseAt t = [] \<Longrightarrow>
   extractUrls t f = []"
  by (simp add: extractUrls_def selectMatches_def match_g_def cleanUrls_def Let_def new_Set_def)

text \<open>
  Claim C8 states that the list returned has no two equal members, has no empty member,
  has no member with leading or trailing white space, keeps the first-seen order of the
  matches, and is empty when no pattern matches. No member is empty or has white space at
  either end (\<open>extract_trimmed_nonempty\<close>), and nothing is returned when no pattern
  matches (\<open>extract_no_match\<close>). But the handler removes repetitions (\<open>new Set\<close>) before
  it trims, so two matches that differ only in surrounding white space both pass and are
  equal once trimmed: on the text \<open><loc>A</loc><loc> A</loc>\<close> the list returned is
  \<open>[A, A]\<close>.
\<close>

theorem extractor_duplicates_after_trim:
  "extractUrls ''<loc>A</loc><loc> A</loc>'' '''' = [''A'', ''A'']
   \<and> \<not> distinct (extractUrls ''<loc>A</loc><loc> A</loc>'' '''')"
proof -
  have "extractUrls ''<loc>A</loc><loc> A</loc>'' '''' = [''A'', ''A'']" by code_simp
  then show ?thesis by simp
qed

section \<open>Properties of the queue store and the selection\<close>

lemma delete_keeps_distinct:
  "distinct (map id' (items st)) \<Longrightarrow>
   distinct (map id' (items (deleteUrl i st)))
   \<and> distinct (map id' (items (deleteBatch ids st)))
   \<and> distinct (map id' (items (clearFailedUrls st)))"
  by (simp add: deleteUrl_def deleteBatch_def clearFailedUrls_def distinct_map_filter)

lemma addUrls_ids:
  "map id' (items (addUrls rnd urls st)) =
     map id' (items st) @ map (\<lambda>k. substring 7 (rnd k)) [0..<length urls]"
proof -
  have "map id' (map (\<lambda>(k, u). newItem (rnd k) u) (enumerate n urls)) =
      map (\<lambda>k. substring 7 (rnd k)) [n..<n + length urls]" for n
    by (induction urls arbitrary: n) (simp_all add: newItem_def upt_rec)
  from this [of 0] show ?thesis
    by (simp add: addUrls_def)
qed

lemma add_keeps_distinct_if_fresh:
  assumes "distinct (map id' (items st))"
    and "distinct (map (\<lambda>k. substring 7 (rnd k)) [0..<length urls])"
    and "\<forall>k<length urls. substring 7 (rnd k) \<notin> id' ` set (items st)"
  shows "distinct (map id' (items (addUrls rnd urls st)))"
  using assms by (auto simp: addUrls_ids) (metis imageI)

text \<open>
  Claim C6 states that the ids of the stored items are pairwise distinct in every
  reachable state. Deleting keeps distinct ids distinct (\<open>delete_keeps_distinct\<close>), and so
  does adding when the new ids happen to differ from one another and from the stored ones
  (\<open>add_keeps_distinct_if_fresh\<close>). But \<open>addUrls\<close> takes each id from the random source
  alone and compares it with nothing: the id is what follows the seventh character of
  \<open>Math.random().toString(36)\<close>. The draws 0.5 and 0.25 print as \<open>0.i\<close> and \<open>0.9\<close>, so one
  call that adds two urls on these draws gives both new items the empty id.
\<close>

theorem add_same_id_twice:
  "map id' (items (addUrls (\<lambda>k. if k = 0 then ''0.i'' else ''0.9'') [''u1'', ''u2''] ex_empty))
     = ['''', '''']
   \<and> \<not> distinct (map id' (items (addUrls (\<lambda>k. if k = 0 then ''0.i'' else ''0.9'')
                                    [''u1'', ''u2''] ex_empty)))"
  by (simp add: addUrls_def newItem_def substring_def ex_empty_def)

lemma ex_three_ids: "map id' (items (app ex_three)) = [''id0'', ''id1'', ''id2'']"
  by (simp add: ex_three_def ex_ui_def addUrls_def newItem_def substring_def ex_empty_def)

lemma batch_delete_clears_selection:
  "selectedIds (snd (click_batch_delete ui)) = []"
  by (simp add: click_batch_delete_def executeBatchAction_def)

lemma clear_failed_keeps_selection_sound:
  "set (selectedIds ui) \<subseteq> id' ` set (items (app ui)) \<Longrightarrow>
   set (selectedIds (click_clear_failed ui)) \<subseteq> id' ` set (items (app (click_clear_failed ui)))"
  by (auto simp: click_clear_failed_def)

text \<open>
  Claim C5 states that whenever an item leaves the queue its id leaves the selection as
  well, so that no selected id is without an item. The batch delete does so (it clears the
  selection, \<open>batch_delete_clears_selection\<close>), and "Clear Failed" can only be clicked
  while nothing is selected (\<open>clear_failed_keeps_selection_sound\<close>). The delete button of a
  row calls \<open>deleteUrl\<close> and nothing else: after "select all" on three items, deleting the
  second one by its row button leaves its id \<open>id1\<close> in the selection.
\<close>

theorem row_delete_leaves_selected_id:
  "selectedIds (click_row_delete ''id1'' (handleSelectAll ex_three)) = [''id0'', ''id1'', ''id2'']
   \<and> map id' (items (app (click_row_delete ''id1'' (handleSelectAll ex_three))))
       = [''id0'', ''id2'']"
  by (simp add: ex_three_def ex_ui_def addUrls_def newItem_def substring_def ex_empty_def
      handleSelectAll_def click_row_delete_def deleteUrl_def new_Set_def Set_add_def)

section \<open>The processing flag\<close>

text \<open>
  What a handler does before it yields is the beginning of what it does in all.
\<close>

lemma analysis_start_prefix:
  "take (length (fst (analysis_start targetIds st)))
        (fst (runGeminiAnalysis targetIds analyzeUrls st)) = fst (analysis_start targetIds st)"
  by (simp add: analysis_start_def runGeminiAnalysis_def case_prod_beta split: option.splits)

lemma submit_start_prefix:
  "take (length (fst (submit_start targetIds st)))
        (fst (submitToGoogle targetIds rnd st)) = fst (submit_start targetIds st)"
proof (cases "submit_begin targetIds st")
  case (Pair evs r)
  show ?thesis
  proof (cases r)
    case None
    with Pair show ?thesis by (simp add: submit_start_def submitToGoogle_def)
  next
    case (Some a)
    obtain tgt st1 where a: "a = (tgt, st1)" by (cases a)
    have ne: "tgt \<noteq> []"
      using Pair Some a by (auto simp: submit_begin_def Let_def split: if_splits)
    then obtain t ts where t: "tgt = t # ts" by (cases tgt) auto
    show ?thesis
      using Pair Some a t
      by (simp add: submit_start_def submitToGoogle_def case_prod_beta Let_def)
  qed
qed

lemma global_buttons_gated:
  "isProcessing (app ui) \<Longrightarrow> click_analyze_all ui = ([], ui) \<and> click_submit_ready ui = ([], ui)"
  by (simp add: click_analyze_all_def click_submit_ready_def)

text \<open>
  Claim C9 states that while the processing flag is set every attempt to start an
  analysis or a submission is rejected and changes nothing. The two global buttons are
  disabled while the flag is set (\<open>global_buttons_gated\<close>), but neither handler reads the
  flag and the batch buttons are not disabled: with the analysis of item \<open>a\<close> outstanding
  (flag set), selecting item \<open>c\<close> and clicking the batch "Submit" marks \<open>c\<close> SUBMITTING and
  issues its request.
\<close>

theorem batch_submit_while_processing:
  "isProcessing (app (snd (click_analyze_all (ex_ui ex_mixed))))
   \<and> items (app (snd (click_analyze_all (ex_ui ex_mixed)))) =
       [ex_item ''a'' ''u1'' ANALYZING, ex_item ''c'' ''u3'' READY]
   \<and> click_batch_submit (handleSelect ''c'' (snd (click_analyze_all (ex_ui ex_mixed)))) =
       ([Commit (ex_mixed\<lparr> isProcessing := True,
                   items := [ex_item ''a'' ''u1'' ANALYZING, ex_item ''c'' ''u3'' READY] \<rparr>),
         Commit (ex_mixed\<lparr> isProcessing := True,
                   items := [ex_item ''a'' ''u1'' ANALYZING, ex_item ''c'' ''u3'' SUBMITTING] \<rparr>),
         Submit_call (ex_item ''c'' ''u3'' READY)],
        ex_ui (ex_mixed\<lparr> isProcessing := True,
                   items := [ex_item ''a'' ''u1'' ANALYZING, ex_item ''c'' ''u3'' SUBMITTING] \<rparr>))"
  by (simp add: click_analyze_all_def click_batch_submit_def executeBatchAction_def
      handleSelect_def Set_add_def analysis_start_def analysis_begin_def analysisTargets_def
      markAnalyzing_def submit_start_def submit_begin_def submitTargets_def markSubmitting_def
      ex_ui_def ex_mixed_def ex_item_def Let_def)

end
